theory Spec2Isabelle
  imports Main
begin

section \<open>Data model\<close>

text \<open>
  The handler package of \<open>urlshort\<close>: a redirect record, the table built from a
  slice of records, the lookup handler over that table, and the three factories that
  obtain the records from YAML text, JSON text or a database collection.
\<close>

text \<open>
  \<^verbatim>\<open>type Redirect struct { Path string; URL string }\<close>
\<close>

record Redirect =
  Path :: string
  URL :: string

text \<open>A Go \<open>error\<close> value; \<open>nil\<close> is \<open>None\<close> of \<open>error option\<close>.\<close>

datatype error = Error string

text \<open>
  The part of \<open>*http.Request\<close> the package reads: the method and the parsed URL,
  whose path component and raw query are separate fields (\<open>r.URL.Path\<close>,
  \<open>r.URL.RawQuery\<close>).
\<close>

record url_URL =
  url_Path :: string
  url_RawQuery :: string

record Request =
  Method :: string
  req_URL :: url_URL

text \<open>
  The response sink is the recorder the tests pass as \<open>http.ResponseWriter\<close>
  (\<open>httptest.ResponseRecorder\<close>): the status code, the header map and the body, which
  the tests read, and the flag that records whether the header has been written.
\<close>

record ResponseWriter =
  Code :: nat
  HeaderMap :: "string \<rightharpoonup> string list"
  Body :: string
  wroteHeader :: bool

text \<open>
  A handler serves a request by writing to the response sink; the model returns the
  sink after the call. Its first argument is the state of the outside world at the
  moment the request is served, which a Go handler may consult through whatever it has
  captured (the database handlers below are about exactly that).
\<close>

type_synonym 'w Handler = "'w \<Rightarrow> ResponseWriter \<Rightarrow> Request \<Rightarrow> ResponseWriter"

definition StatusFound :: nat where
  "StatusFound = 302"

section \<open>The standard library as the handler uses it\<close>

text \<open>
  \<open>MapHandler\<close> calls \<open>http.Redirect\<close>, which belongs to the Go standard library
  and not to the repository. This section renders that function and what it calls
  (\<open>url.Parse\<close> as far as its outcome is tested, \<open>path.Split\<close>, \<open>path.Clean\<close>,
  the recorder's \<open>WriteHeader\<close> and \<open>Write\<close>) after the library's source.
\<close>

subsection \<open>The recorder\<close>

text \<open>
  \<open>Header.Set\<close> replaces the values of a key by one value and \<open>Header.Get\<close> gives the
  first value of a key or the empty string; the keys used here are already in canonical
  form.
\<close>

definition Header_Set :: "(string \<rightharpoonup> string list) \<Rightarrow> string \<Rightarrow> string \<Rightarrow> (string \<rightharpoonup> string list)" where
  "Header_Set h key val = h(key \<mapsto> [val])"

definition Header_Get :: "(string \<rightharpoonup> string list) \<Rightarrow> string \<Rightarrow> string" where
  "Header_Get h key = (case h key of Some (v # vs) \<Rightarrow> v | _ \<Rightarrow> [])"

text \<open>
  \<^verbatim>\<open>
  func (rw *ResponseRecorder) WriteHeader(code int) {
      if rw.wroteHeader {
          return
      }
      rw.Code = code
      rw.wroteHeader = true
      ...
  }
  \<close>
  The recorder panics on a code outside 100..999; the package passes 302 and the
  fixtures 200, so that branch is left out.
\<close>

definition WriteHeader :: "ResponseWriter \<Rightarrow> nat \<Rightarrow> ResponseWriter" where
  "WriteHeader rw code = (if wroteHeader rw then rw else rw\<lparr>Code := code, wroteHeader := True\<rparr>)"

text \<open>
  \<^verbatim>\<open>
  func (rw *ResponseRecorder) writeHeader(b []byte, str string) {
      if rw.wroteHeader {
          return
      }
      m := rw.Header()
      _, hasType := m["Content-Type"]
      hasTE := m.Get("Transfer-Encoding") != ""
      if !hasType && !hasTE {
          m.Set("Content-Type", http.DetectContentType(b))
      }
      rw.WriteHeader(200)
  }
  func (rw *ResponseRecorder) Write(buf []byte) (int, error) {
      rw.writeHeader(buf, "")
      rw.Body.Write(buf)
      return len(buf), nil
  }
  \<close>
  \<open>http.DetectContentType\<close> is not modelled: the caller of \<open>Write\<close> supplies, as
  \<open>detected\<close>, the content type that function finds for the bytes written. It is
  consulted only while the header is unwritten.
\<close>

definition Write :: "string \<Rightarrow> ResponseWriter \<Rightarrow> string \<Rightarrow> ResponseWriter" where
  "Write detected rw buf =
     (let rw1 =
        (if wroteHeader rw then rw
         else
           (let m = HeaderMap rw;
                hasType = (m ''Content-Type'' \<noteq> None);
                hasTE = (Header_Get m ''Transfer-Encoding'' \<noteq> []);
                m = (if \<not> hasType \<and> \<not> hasTE then Header_Set m ''Content-Type'' detected else m)
            in WriteHeader (rw\<lparr>HeaderMap := m\<rparr>) 200))
      in rw1\<lparr>Body := Body rw1 @ buf\<rparr>)"

text \<open>\<open>fmt.Fprintln(w, s)\<close> writes \<open>s\<close> and a newline in one call of \<open>Write\<close>.\<close>

definition Fprintln :: "string \<Rightarrow> ResponseWriter \<Rightarrow> string \<Rightarrow> ResponseWriter" where
  "Fprintln detected w s = Write detected w (s @ [CHR 0x0A])"

subsection \<open>Strings and bytes\<close>

definition HasPrefix :: "string \<Rightarrow> string \<Rightarrow> bool" where
  "HasPrefix s p = (take (length p) s = p)"

definition HasSuffix :: "string \<Rightarrow> string \<Rightarrow> bool" where
  "HasSuffix s p = (length p \<le> length s \<and> drop (length s - length p) s = p)"

definition is_letter :: "char \<Rightarrow> bool" where
  "is_letter c = ((97 \<le> (of_char c :: nat) \<and> (of_char c :: nat) \<le> 122)
                  \<or> (65 \<le> (of_char c :: nat) \<and> (of_char c :: nat) \<le> 90))"

definition is_digit :: "char \<Rightarrow> bool" where
  "is_digit c = (48 \<le> (of_char c :: nat) \<and> (of_char c :: nat) \<le> 57)"

definition ishex :: "char \<Rightarrow> bool" where
  "ishex c = (is_digit c
              \<or> (97 \<le> (of_char c :: nat) \<and> (of_char c :: nat) \<le> 102)
              \<or> (65 \<le> (of_char c :: nat) \<and> (of_char c :: nat) \<le> 70))"

text \<open>A string of bytes below \<open>utf8.RuneSelf\<close> (0x80).\<close>

definition is_ASCII :: "string \<Rightarrow> bool" where
  "is_ASCII s = list_all (\<lambda>c. (of_char c :: nat) < 128) s"

text \<open>
  \<open>hexEscapeNonASCII\<close> of \<open>net/http\<close> replaces every byte from 0x80 on by \<open>%\<close> and
  its two lower-case hexadecimal digits.
\<close>

definition hexdigit :: "nat \<Rightarrow> char" where
  "hexdigit n = ''0123456789abcdef'' ! n"

definition hexEscapeNonASCII :: "string \<Rightarrow> string" where
  "hexEscapeNonASCII s =
     concat (map (\<lambda>c. if (of_char c :: nat) \<ge> 128
                       then [CHR ''%'', hexdigit ((of_char c :: nat) div 16), hexdigit ((of_char c :: nat) mod 16)]
                       else [c]) s)"

text \<open>
  \<open>htmlEscape\<close> of \<open>net/http\<close> replaces five characters: the ampersand, the two angle brackets,
  the double quote and the apostrophe.
\<close>

definition htmlEscape :: "string \<Rightarrow> string" where
  "htmlEscape s =
     concat (map (\<lambda>c. if c = CHR ''&'' then ''&amp;''
                       else if c = CHR ''<'' then ''&lt;''
                       else if c = CHR ''>'' then ''&gt;''
                       else if c = CHR 0x22 then ''&#34;''
                       else if c = CHR 0x27 then ''&#39;''
                       else [c]) s)"

text \<open>
  The entries of the library's table of status texts for the 3xx codes, the range
  \<open>http.Redirect\<close> is documented for; a code without an entry gives the empty string.
\<close>

definition statusText :: "nat \<Rightarrow> string" where
  "statusText code =
     (if code = 300 then ''Multiple Choices''
      else if code = 301 then ''Moved Permanently''
      else if code = 302 then ''Found''
      else if code = 303 then ''See Other''
      else if code = 304 then ''Not Modified''
      else if code = 305 then ''Use Proxy''
      else if code = 307 then ''Temporary Redirect''
      else if code = 308 then ''Permanent Redirect''
      else [])"

subsection \<open>Does the target parse as a relative reference\<close>

text \<open>
  \<open>http.Redirect\<close> rewrites its target only when \<open>url.Parse\<close> accepts it and finds
  neither a scheme nor a host. \<open>url_Parse_relative\<close> is that test. It follows
  \<open>url.Parse\<close>: the fragment is cut off at the first \<open>#\<close>; a control byte is an error;
  \<open>*\<close> is accepted as a path; \<open>getScheme\<close> splits a leading scheme off; the query is
  cut off at the first \<open>?\<close>; without scheme and leading slash the first path segment
  must not contain a colon; after \<open>//\<close> (but not \<open>///\<close>) comes an authority, whose
  host is empty only when the authority is empty or ends with \<open>@\<close> after a valid
  userinfo; path, userinfo and fragment must have well-formed percent escapes. A target
  that fails to parse, or parses with a scheme or a host, is treated alike by
  \<open>http.Redirect\<close>, so the remaining checks on a non-empty host are not needed.
\<close>

definition stringContainsCTLByte :: "string \<Rightarrow> bool" where
  "stringContainsCTLByte s = list_ex (\<lambda>b. (of_char b :: nat) < 32 \<or> (of_char b :: nat) = 127) s"

text \<open>
  \<^verbatim>\<open>
  func getScheme(rawURL string) (scheme, path string, err error) {
      for i := 0; i < len(rawURL); i++ {
          c := rawURL[i]
          switch {
          case 'a' <= c && c <= 'z' || 'A' <= c && c <= 'Z':
          case '0' <= c && c <= '9' || c == '+' || c == '-' || c == '.':
              if i == 0 {
                  return "", rawURL, nil
              }
          case c == ':':
              if i == 0 {
                  return "", "", errors.New("missing protocol scheme")
              }
              return rawURL[:i], rawURL[i+1:], nil
          default:
              return "", rawURL, nil
          }
      }
      return "", rawURL, nil
  }
  \<close>
\<close>

fun getScheme_loop :: "string \<Rightarrow> nat \<Rightarrow> string \<Rightarrow> error + string \<times> string" where
  "getScheme_loop rawURL i [] = Inr ([], rawURL)"
| "getScheme_loop rawURL i (c # cs) =
     (if is_letter c then getScheme_loop rawURL (Suc i) cs
      else if is_digit c \<or> c = CHR ''+'' \<or> c = CHR ''-'' \<or> c = CHR ''.'' then
        (if i = 0 then Inr ([], rawURL) else getScheme_loop rawURL (Suc i) cs)
      else if c = CHR '':'' then
        (if i = 0 then Inl (Error ''missing protocol scheme'') else Inr (take i rawURL, cs))
      else Inr ([], rawURL))"

definition getScheme :: "string \<Rightarrow> error + string \<times> string" where
  "getScheme rawURL = getScheme_loop rawURL 0 rawURL"

text \<open>
  \<open>unescape\<close> fails, in the modes used for a path, a userinfo and a fragment, exactly
  when some \<open>%\<close> is not followed by two hexadecimal digits.
\<close>

fun escapes_ok :: "string \<Rightarrow> bool" where
  "escapes_ok [] = True"
| "escapes_ok (c # cs) =
     (if c = CHR ''%'' then
        (case cs of
           a # b # rest \<Rightarrow> ishex a \<and> ishex b \<and> escapes_ok rest
         | _ \<Rightarrow> False)
      else escapes_ok cs)"

definition validUserinfo :: "string \<Rightarrow> bool" where
  "validUserinfo s =
     list_all (\<lambda>r. is_letter r \<or> is_digit r \<or> r \<in> set ''-._:~!$&()*+,;=%@'' \<or> r = CHR 0x27) s"

definition userinfo_ok :: "string \<Rightarrow> bool" where
  "userinfo_ok userinfo =
     (validUserinfo userinfo \<and>
      (if CHR '':'' \<notin> set userinfo then escapes_ok userinfo
       else escapes_ok (takeWhile (\<lambda>c. c \<noteq> CHR '':'') userinfo)
            \<and> escapes_ok (drop 1 (dropWhile (\<lambda>c. c \<noteq> CHR '':'') userinfo))))"

definition authority_without_host :: "string \<Rightarrow> bool" where
  "authority_without_host authority =
     (if CHR ''@'' \<notin> set authority then authority = []
      else last authority = CHR ''@'' \<and> userinfo_ok (butlast authority))"

definition parse_relative :: "string \<Rightarrow> bool" where
  "parse_relative rawURL =
     (if stringContainsCTLByte rawURL then False
      else if rawURL = ''*'' then True
      else
        (case getScheme rawURL of
           Inl err \<Rightarrow> False
         | Inr (scheme, rest0) \<Rightarrow>
             (let rest = takeWhile (\<lambda>c. c \<noteq> CHR ''?'') rest0 in
              if scheme \<noteq> [] then False
              else if \<not> HasPrefix rest ''/'' \<and> CHR '':'' \<in> set (takeWhile (\<lambda>c. c \<noteq> CHR ''/'') rest)
                then False
              else if \<not> HasPrefix rest ''///'' \<and> HasPrefix rest ''//'' then
                (let authority = takeWhile (\<lambda>c. c \<noteq> CHR ''/'') (drop 2 rest);
                     rest = dropWhile (\<lambda>c. c \<noteq> CHR ''/'') (drop 2 rest)
                 in authority_without_host authority \<and> escapes_ok rest)
              else escapes_ok rest)))"

definition url_Parse_relative :: "string \<Rightarrow> bool" where
  "url_Parse_relative rawURL =
     (let u = takeWhile (\<lambda>c. c \<noteq> CHR ''#'') rawURL;
          frag = drop (Suc (length u)) rawURL
      in parse_relative u \<and> escapes_ok frag)"

subsection \<open>Paths\<close>

text \<open>
  The directory part of \<open>path.Split\<close>: everything up to and including the last slash.
\<close>

definition path_Split_dir :: "string \<Rightarrow> string" where
  "path_Split_dir p = rev (dropWhile (\<lambda>c. c \<noteq> CHR ''/'') (rev p))"

text \<open>
  \<^verbatim>\<open>
  func Clean(path string) string {
      if path == "" {
          return "."
      }
      rooted := path[0] == '/'
      n := len(path)
      out := lazybuf{s: path}
      r, dotdot := 0, 0
      if rooted {
          out.append('/')
          r, dotdot = 1, 1
      }
      for r < n {
          switch {
          case path[r] == '/':
              r++
          case path[r] == '.' && (r+1 == n || path[r+1] == '/'):
              r++
          case path[r] == '.' && path[r+1] == '.' && (r+2 == n || path[r+2] == '/'):
              r += 2
              switch {
              case out.w > dotdot:
                  out.w--
                  for out.w > dotdot && out.index(out.w) != '/' {
                      out.w--
                  }
              case !rooted:
                  if out.w > 0 {
                      out.append('/')
                  }
                  out.append('.')
                  out.append('.')
                  dotdot = out.w
              }
          default:
              if rooted && out.w != 1 || !rooted && out.w != 0 {
                  out.append('/')
              }
              for ; r < n && path[r] != '/'; r++ {
                  out.append(path[r])
              }
          }
      }
      if out.w == 0 {
          return "."
      }
      return out.string()
  }
  \<close>
  The buffer is the list \<open>out\<close>, whose length is \<open>out.w\<close>; the loop runs over the
  part of the path not yet read.
\<close>

fun backtrack :: "string \<Rightarrow> nat \<Rightarrow> nat \<Rightarrow> nat" where
  "backtrack out dotdot w =
     (if w > dotdot \<and> out ! w \<noteq> CHR ''/'' then backtrack out dotdot (w - 1) else w)"

declare backtrack.simps [simp del]

function path_Clean_loop :: "bool \<Rightarrow> string \<Rightarrow> nat \<Rightarrow> string \<Rightarrow> string" where
  "path_Clean_loop rooted out dotdot [] = out"
| "path_Clean_loop rooted out dotdot (c # cs) =
     (if c = CHR ''/'' then path_Clean_loop rooted out dotdot cs
      else if c = CHR ''.'' \<and> (cs = [] \<or> hd cs = CHR ''/'') then path_Clean_loop rooted out dotdot cs
      else if c = CHR ''.'' \<and> hd cs = CHR ''.'' \<and> (tl cs = [] \<or> hd (tl cs) = CHR ''/'') then
        (if length out > dotdot then
           path_Clean_loop rooted (take (backtrack out dotdot (length out - 1)) out) dotdot (tl cs)
         else if \<not> rooted then
           (let out1 = (if length out > 0 then out @ ''/'' else out) @ ''..''
            in path_Clean_loop rooted out1 (length out1) (tl cs))
         else path_Clean_loop rooted out dotdot (tl cs))
      else
        (let out1 = (if (rooted \<and> length out \<noteq> 1) \<or> (\<not> rooted \<and> length out \<noteq> 0)
                     then out @ ''/'' else out)
         in path_Clean_loop rooted (out1 @ takeWhile (\<lambda>x. x \<noteq> CHR ''/'') (c # cs)) dotdot
              (dropWhile (\<lambda>x. x \<noteq> CHR ''/'') (c # cs))))"
  by pat_completeness auto
termination
proof (relation "measure (\<lambda>(rooted, out, dotdot, rest). length rest)")
  fix rooted :: bool and out :: string and dotdot :: nat and c :: char and cs :: string and x :: string
  assume "c \<noteq> CHR ''/''"
  have "length (dropWhile (\<lambda>x. x \<noteq> CHR ''/'') cs) \<le> length cs"
    by (rule length_dropWhile_le)
  with \<open>c \<noteq> CHR ''/''\<close>
  show "((rooted, x @ takeWhile (\<lambda>x. x \<noteq> CHR ''/'') (c # cs), dotdot,
           dropWhile (\<lambda>x. x \<noteq> CHR ''/'') (c # cs)),
          (rooted, out, dotdot, c # cs)) \<in> measure (\<lambda>(rooted, out, dotdot, rest). length rest)"
    by simp
qed simp_all

definition path_Clean :: "string \<Rightarrow> string" where
  "path_Clean path =
     (if path = [] then ''.''
      else
        (let rooted = (hd path = CHR ''/'');
             out = path_Clean_loop rooted (if rooted then ''/'' else []) (if rooted then 1 else 0)
                     (if rooted then tl path else path)
         in if out = [] then ''.'' else out))"

subsection \<open>The redirect\<close>

text \<open>
  \<^verbatim>\<open>
  func Redirect(w ResponseWriter, r *Request, url string, code int) {
      if u, err := urlpkg.Parse(url); err == nil {
          if u.Scheme == "" && u.Host == "" {
              oldpath := r.URL.Path
              if oldpath == "" {
                  oldpath = "/"
              }
              if url == "" || url[0] != '/' {
                  olddir, _ := path.Split(oldpath)
                  url = olddir + url
              }
              var query string
              if i := strings.Index(url, "?"); i != -1 {
                  url, query = url[:i], url[i:]
              }
              trailing := strings.HasSuffix(url, "/")
              url = path.Clean(url)
              if trailing && !strings.HasSuffix(url, "/") {
                  url += "/"
              }
              url += query
          }
      }
      h := w.Header()
      _, hadCT := h["Content-Type"]
      h.Set("Location", hexEscapeNonASCII(url))
      if !hadCT && (r.Method == "GET" || r.Method == "HEAD") {
          h.Set("Content-Type", "text/html; charset=utf-8")
      }
      w.WriteHeader(code)
      if !hadCT && r.Method == "GET" {
          body := "<a href=\"" + htmlEscape(url) + "\">" + statusText[code] + "</a>.\n"
          fmt.Fprintln(w, body)
      }
  }
  \<close>
  \<open>redirect_target\<close> is the first block, the target after rewriting;
  \<open>http_Redirect\<close> is the whole function.
\<close>

definition redirect_target :: "Request \<Rightarrow> string \<Rightarrow> string" where
  "redirect_target r url =
     (if url_Parse_relative url then
        (let oldpath = url_Path (req_URL r);
             oldpath = (if oldpath = [] then ''/'' else oldpath);
             url1 = (if url = [] \<or> hd url \<noteq> CHR ''/'' then path_Split_dir oldpath @ url else url);
             query = dropWhile (\<lambda>c. c \<noteq> CHR ''?'') url1;
             url2 = takeWhile (\<lambda>c. c \<noteq> CHR ''?'') url1;
             trailing = HasSuffix url2 ''/'';
             url3 = path_Clean url2;
             url4 = (if trailing \<and> \<not> HasSuffix url3 ''/'' then url3 @ ''/'' else url3)
         in url4 @ query)
      else url)"

definition http_Redirect :: "ResponseWriter \<Rightarrow> Request \<Rightarrow> string \<Rightarrow> nat \<Rightarrow> ResponseWriter" where
  "http_Redirect w r url code =
     (let url = redirect_target r url;
          h = HeaderMap w;
          hadCT = (h ''Content-Type'' \<noteq> None);
          h = Header_Set h ''Location'' (hexEscapeNonASCII url);
          h = (if \<not> hadCT \<and> (Method r = ''GET'' \<or> Method r = ''HEAD'')
               then Header_Set h ''Content-Type'' ''text/html; charset=utf-8'' else h);
          w = WriteHeader (w\<lparr>HeaderMap := h\<rparr>) code
      in if \<not> hadCT \<and> Method r = ''GET'' then
           (let body = ''<a href='' @ [CHR 0x22] @ htmlEscape url @ [CHR 0x22] @ ''>''
                         @ statusText code @ ''</a>.'' @ [CHR 0x0A]
            in Fprintln ''text/html; charset=utf-8'' w body)
         else w)"

section \<open>The lookup handler\<close>

text \<open>
  \<^verbatim>\<open>
  func MapHandler(pathsToUrls map[string]string, fallback http.Handler) http.HandlerFunc {
      return func(w http.ResponseWriter, r *http.Request) {
          path := r.URL.Path
          if url, ok := pathsToUrls[path]; ok {
              http.Redirect(w, r, url, http.StatusFound)
          } else {
              fallback.ServeHTTP(w, r)
          }
      }
  }
  \<close>
\<close>

definition MapHandler :: "(string \<rightharpoonup> string) \<Rightarrow> 'w Handler \<Rightarrow> 'w Handler" where
  "MapHandler pathsToUrls fallback = (\<lambda>world w r.
     let path = url_Path (req_URL r) in
     case pathsToUrls path of
       Some url \<Rightarrow> http_Redirect w r url StatusFound
     | None \<Rightarrow> fallback world w r)"

section \<open>The table builder\<close>

text \<open>
  \<^verbatim>\<open>
  func RedirectsToMap(redirects []Redirect) map[string]string {
      pathsToUrls := map[string]string{}
      for _, redirect := range redirects {
          pathsToUrls[redirect.Path] = redirect.URL
      }
      return pathsToUrls
  }
  \<close>
  The loop is the recursion \<open>RedirectsToMap_loop\<close> over the slice, carrying the map.
\<close>

fun RedirectsToMap_loop :: "(string \<rightharpoonup> string) \<Rightarrow> Redirect list \<Rightarrow> (string \<rightharpoonup> string)" where
  "RedirectsToMap_loop pathsToUrls [] = pathsToUrls"
| "RedirectsToMap_loop pathsToUrls (redirect # redirects) =
     RedirectsToMap_loop (pathsToUrls(Path redirect \<mapsto> URL redirect)) redirects"

definition RedirectsToMap :: "Redirect list \<Rightarrow> (string \<rightharpoonup> string)" where
  "RedirectsToMap redirects = RedirectsToMap_loop Map.empty redirects"

section \<open>The decoders and the decoder-backed factories\<close>

text \<open>
  \<open>yaml.Unmarshal\<close> and \<open>json.Unmarshal\<close> are third-party and standard-library
  functions; the package only forwards to them. They are parameters of the model: an
  unmarshaller takes the bytes and the current content of the target slice and gives the
  content of the slice after the call together with the error (\<open>None\<close> for \<open>nil\<close>).
  A decoder that fails may still have written to the slice.
\<close>

type_synonym unmarshaller = "string \<Rightarrow> Redirect list \<Rightarrow> Redirect list \<times> error option"

text \<open>
  \<^verbatim>\<open>func ParseYaml(yml []byte, v interface{}) error { return yaml.Unmarshal(yml, v) }\<close>
  \<^verbatim>\<open>func ParseJson(jsn []byte, v interface{}) error { return json.Unmarshal(jsn, v) }\<close>
\<close>

definition ParseYaml :: "unmarshaller \<Rightarrow> string \<Rightarrow> Redirect list \<Rightarrow> Redirect list \<times> error option" where
  "ParseYaml yaml_Unmarshal yml v = yaml_Unmarshal yml v"

definition ParseJson :: "unmarshaller \<Rightarrow> string \<Rightarrow> Redirect list \<Rightarrow> Redirect list \<times> error option" where
  "ParseJson json_Unmarshal jsn v = json_Unmarshal jsn v"

text \<open>
  \<^verbatim>\<open>
  func YamlHandler(yml []byte, fallback http.Handler) (http.HandlerFunc, error) {
      var redirects []Redirect
      err := ParseYaml(yml, &redirects)
      if err != nil {
          return nil, err
      }
      pathsToUrls := RedirectsToMap(redirects)
      return MapHandler(pathsToUrls, fallback), nil
  }
  \<close>
  The result is the Go pair: the handler (\<open>None\<close> for \<open>nil\<close>) and the error.
  \<open>JsonHandler\<close> is the same function over \<open>ParseJson\<close>.
\<close>

definition YamlHandler :: "unmarshaller \<Rightarrow> string \<Rightarrow> 'w Handler \<Rightarrow> 'w Handler option \<times> error option" where
  "YamlHandler yaml_Unmarshal yml fallback =
     (let redirects = [];
          (redirects, err) = ParseYaml yaml_Unmarshal yml redirects
      in case err of
           Some e \<Rightarrow> (None, Some e)
         | None \<Rightarrow>
             (let pathsToUrls = RedirectsToMap redirects
              in (Some (MapHandler pathsToUrls fallback), None)))"

definition JsonHandler :: "unmarshaller \<Rightarrow> string \<Rightarrow> 'w Handler \<Rightarrow> 'w Handler option \<times> error option" where
  "JsonHandler json_Unmarshal jsn fallback =
     (let redirects = [];
          (redirects, err) = ParseJson json_Unmarshal jsn redirects
      in case err of
           Some e \<Rightarrow> (None, Some e)
         | None \<Rightarrow>
             (let pathsToUrls = RedirectsToMap redirects
              in (Some (MapHandler pathsToUrls fallback), None)))"

section \<open>The record store\<close>

text \<open>
  Modelled from the spec: the MongoDB driver is not part of the repository. Section 6 of
  the specification gives the capability consumed, \<open>find(filter)\<close> returning an ordered
  sequence of records or an error. A collection holds its documents and the failure, if
  any, that a query (\<open>find_err\<close>) or the decoding of its cursor (\<open>decode_err\<close>) meets
  at this moment; a database maps collection names to collections; a filter is a
  predicate on documents and \<open>bson.M{}\<close> accepts every document.
\<close>

record mongo_Collection =
  documents :: "Redirect list"
  find_err :: "error option"
  decode_err :: "error option"

record mongo_Cursor =
  batch :: "Redirect list"
  all_err :: "error option"

type_synonym mongo_Database = "string \<Rightarrow> mongo_Collection"

type_synonym bson_M = "Redirect \<Rightarrow> bool"

definition bson_M_empty :: bson_M where
  "bson_M_empty = (\<lambda>_. True)"

definition Collection_Find :: "'c \<Rightarrow> mongo_Collection \<Rightarrow> bson_M \<Rightarrow> mongo_Cursor \<times> error option" where
  "Collection_Find ctx coll flt =
     (case find_err coll of
        Some e \<Rightarrow> (\<lparr>batch = [], all_err = None\<rparr>, Some e)
      | None \<Rightarrow> (\<lparr>batch = filter flt (documents coll), all_err = decode_err coll\<rparr>, None))"

definition Cursor_All :: "'c \<Rightarrow> mongo_Cursor \<Rightarrow> Redirect list \<Rightarrow> Redirect list \<times> error option" where
  "Cursor_All ctx cursor v =
     (case all_err cursor of
        Some e \<Rightarrow> (v, Some e)
      | None \<Rightarrow> (batch cursor, None))"

text \<open>
  \<^verbatim>\<open>
  type RedirectoryDatabase struct { db *mongo.Database }
  var redirectoryCollectionName = "redirect"

  func (r *RedirectoryDatabase) Find(ctx context.Context, v interface{}, filter bson.M) error {
      cursor, err := r.db.Collection(redirectoryCollectionName).Find(ctx, filter)
      if err != nil {
          return err
      }
      err = cursor.All(ctx, v)
      return err
  }
  \<close>
  A value of \<open>RedirectoryDatabase\<close> is the database as it stands when it is queried.
\<close>

record RedirectoryDatabase =
  db :: mongo_Database

definition redirectoryCollectionName :: string where
  "redirectoryCollectionName = ''redirect''"

definition Find :: "'c \<Rightarrow> RedirectoryDatabase \<Rightarrow> Redirect list \<Rightarrow> bson_M \<Rightarrow> Redirect list \<times> error option" where
  "Find ctx r v flt =
     (let (cursor, err) = Collection_Find ctx (db r redirectoryCollectionName) flt
      in case err of
           Some e \<Rightarrow> (v, Some e)
         | None \<Rightarrow> Cursor_All ctx cursor v)"

text \<open>
  \<^verbatim>\<open>
  func DbHandler(ctx context.Context, r *RedirectoryDatabase, fallback http.Handler) (http.HandlerFunc, error) {
      var redirects []Redirect
      // Find all redirect collection items using bson.M{}
      err := r.Find(ctx, &redirects, bson.M{})
      if err != nil {
          return nil, err
      }
      pathsToUrls := RedirectsToMap(redirects)
      return MapHandler(pathsToUrls, fallback), nil
  }
  \<close>
  The argument \<open>r\<close> is the database at the time \<open>DbHandler\<close> is called. The handler
  returned is served later, in a world that holds the database as it is then.
\<close>

definition DbHandler :: "'c \<Rightarrow> RedirectoryDatabase \<Rightarrow> 'w Handler \<Rightarrow> 'w Handler option \<times> error option" where
  "DbHandler ctx r fallback =
     (let redirects = [];
          (redirects, err) = Find ctx r redirects bson_M_empty
      in case err of
           Some e \<Rightarrow> (None, Some e)
         | None \<Rightarrow>
             (let pathsToUrls = RedirectsToMap redirects
              in (Some (MapHandler pathsToUrls fallback), None)))"

section \<open>Conversion to a slice of interface values\<close>

text \<open>
  \<^verbatim>\<open>
  func RedirectsToArrayInterface(redirects []Redirect) []interface{} {
      s := make([]interface{}, len(redirects))
      for i, v := range redirects {
          s[i] = v
      }
      return s
  }
  \<close>
  An \<open>interface{}\<close> value is \<open>nil\<close> or holds a \<open>Redirect\<close>. An assignment
  \<open>s[i] = v\<close> with \<open>i\<close> out of range panics in Go; the loop returns \<open>None\<close> there.
\<close>

datatype iface = nil_iface | Redirect_iface Redirect

fun RedirectsToArrayInterface_loop :: "nat \<Rightarrow> Redirect list \<Rightarrow> iface list \<Rightarrow> iface list option" where
  "RedirectsToArrayInterface_loop i [] s = Some s"
| "RedirectsToArrayInterface_loop i (v # vs) s =
     (if i < length s then RedirectsToArrayInterface_loop (Suc i) vs (s[i := Redirect_iface v])
      else None)"

definition RedirectsToArrayInterface :: "Redirect list \<Rightarrow> iface list option" where
  "RedirectsToArrayInterface redirects =
     (let s = replicate (length redirects) nil_iface
      in RedirectsToArrayInterface_loop 0 redirects s)"

section \<open>Test fixtures\<close>

text \<open>
  The fallback of \<open>main.go\<close>, \<^verbatim>\<open>fmt.Fprintln(w, "Hello, world!")\<close>, for whose
  bytes the content type detected is \<open>text/plain; charset=utf-8\<close>; a fresh recorder, as
  \<open>httptest.NewRecorder\<close> returns it (status 200, no headers, empty body, header not
  written); and the request a handler receives when the request line carries the given
  method and a URL with the given path component and no query.
\<close>

definition hello :: "'w Handler" where
  "hello = (\<lambda>world w r. Fprintln ''text/plain; charset=utf-8'' w ''Hello, world!'')"

definition NewRecorder :: ResponseWriter where
  "NewRecorder = \<lparr>Code = 200, HeaderMap = Map.empty, Body = [], wroteHeader = False\<rparr>"

definition request_for :: "string \<Rightarrow> string \<Rightarrow> Request" where
  "request_for method path = \<lparr>Method = method, req_URL = \<lparr>url_Path = path, url_RawQuery = []\<rparr>\<rparr>"

section \<open>Properties of the table builder\<close>

lemma RedirectsToMap_loop_append:
  "RedirectsToMap_loop m (xs @ ys) = RedirectsToMap_loop (RedirectsToMap_loop m xs) ys"
  by (induction xs arbitrary: m) simp_all

lemma find_snoc:
  "find P (xs @ [x]) = (case find P xs of Some y \<Rightarrow> Some y | None \<Rightarrow> if P x then Some x else None)"
  by (induction xs) simp_all

lemma RedirectsToMap_loop_lookup:
  "RedirectsToMap_loop m rs p =
     (case find (\<lambda>r. Path r = p) (rev rs) of Some r \<Rightarrow> Some (URL r) | None \<Rightarrow> m p)"
proof (induction rs arbitrary: m)
  case Nil
  show ?case by simp
next
  case (Cons r rs)
  show ?case
    by (simp add: Cons.IH find_snoc split: option.splits)
qed

lemma RedirectsToMap_snoc:
  "RedirectsToMap (rs @ [r]) = (RedirectsToMap rs)(Path r \<mapsto> URL r)"
  by (simp add: RedirectsToMap_def RedirectsToMap_loop_append)

lemma RedirectsToMap_lookup:
  "RedirectsToMap rs p = map_option URL (find (\<lambda>r. Path r = p) (rev rs))"
  by (simp add: RedirectsToMap_def RedirectsToMap_loop_lookup split: option.splits)

text \<open>
  Claim C4. The table builder folds the records from left to right, each record
  overwriting whatever its path was mapped to before: appending a record updates the
  table at that record's path, so the url found under a path is the url of the last
  record of the sequence carrying that path. In particular the two records
  \<open>{/a, /x}\<close>, \<open>{/a, /y}\<close> give exactly the one-entry table \<open>/a \<mapsto> /y\<close>.
\<close>

theorem RedirectsToMap_last_write_wins:
  "RedirectsToMap [] = Map.empty
   \<and> RedirectsToMap (rs @ [r]) = (RedirectsToMap rs)(Path r \<mapsto> URL r)
   \<and> RedirectsToMap rs p = map_option URL (find (\<lambda>r. Path r = p) (rev rs))
   \<and> RedirectsToMap [\<lparr>Path = ''/a'', URL = ''/x''\<rparr>, \<lparr>Path = ''/a'', URL = ''/y''\<rparr>]
       = [''/a'' \<mapsto> ''/y'']"
proof (intro conjI)
  show "RedirectsToMap [] = Map.empty"
    by (simp add: RedirectsToMap_def)
  show "RedirectsToMap (rs @ [r]) = (RedirectsToMap rs)(Path r \<mapsto> URL r)"
    by (rule RedirectsToMap_snoc)
  show "RedirectsToMap rs p = map_option URL (find (\<lambda>r. Path r = p) (rev rs))"
    by (rule RedirectsToMap_lookup)
  show "RedirectsToMap [\<lparr>Path = ''/a'', URL = ''/x''\<rparr>, \<lparr>Path = ''/a'', URL = ''/y''\<rparr>]
          = [''/a'' \<mapsto> ''/y'']"
    by (simp add: RedirectsToMap_def)
qed

text \<open>
  The unqualified form fails: a copy of a record that is no longer the last one for its
  path brings the overwritten url back.
\<close>

lemma RedirectsToMap_stale_duplicate:
  "RedirectsToMap ([\<lparr>Path = ''/a'', URL = ''/x''\<rparr>, \<lparr>Path = ''/a'', URL = ''/y''\<rparr>]
                     @ [\<lparr>Path = ''/a'', URL = ''/x''\<rparr>]) ''/a'' = Some ''/x''
   \<and> RedirectsToMap [\<lparr>Path = ''/a'', URL = ''/x''\<rparr>, \<lparr>Path = ''/a'', URL = ''/y''\<rparr>] ''/a''
       = Some ''/y''"
  by (simp add: RedirectsToMap_def)

text \<open>
  Claim C8. Appending an exact copy of a record that is the last record of the sequence
  carrying its path leaves the table as it was.
\<close>

theorem RedirectsToMap_duplicate_idempotent:
  assumes "find (\<lambda>x. Path x = Path r) (rev rs) = Some r"
  shows "RedirectsToMap (rs @ [r]) = RedirectsToMap rs"
proof -
  have "RedirectsToMap rs (Path r) = Some (URL r)"
    using assms by (simp add: RedirectsToMap_lookup)
  then have "(RedirectsToMap rs)(Path r \<mapsto> URL r) = RedirectsToMap rs"
    by (rule map_upd_triv)
  then show ?thesis
    by (simp add: RedirectsToMap_snoc)
qed

theorem RedirectsToMap_duplicate_idempotent_witness:
  "find (\<lambda>x. Path x = Path \<lparr>Path = ''/a'', URL = ''/x''\<rparr>)
        (rev [\<lparr>Path = ''/a'', URL = ''/x''\<rparr>, \<lparr>Path = ''/b'', URL = ''/y''\<rparr>])
     = Some \<lparr>Path = ''/a'', URL = ''/x''\<rparr>
   \<and> RedirectsToMap ([\<lparr>Path = ''/a'', URL = ''/x''\<rparr>, \<lparr>Path = ''/b'', URL = ''/y''\<rparr>]
                       @ [\<lparr>Path = ''/a'', URL = ''/x''\<rparr>])
       = RedirectsToMap [\<lparr>Path = ''/a'', URL = ''/x''\<rparr>, \<lparr>Path = ''/b'', URL = ''/y''\<rparr>]"
proof -
  have h: "find (\<lambda>x. Path x = Path \<lparr>Path = ''/a'', URL = ''/x''\<rparr>)
             (rev [\<lparr>Path = ''/a'', URL = ''/x''\<rparr>, \<lparr>Path = ''/b'', URL = ''/y''\<rparr>])
           = Some \<lparr>Path = ''/a'', URL = ''/x''\<rparr>"
    by simp
  from h RedirectsToMap_duplicate_idempotent [OF h] show ?thesis
    by (rule conjI)
qed

section \<open>Properties of the library functions\<close>

lemma Write_after_header:
  "wroteHeader rw \<Longrightarrow> Write detected rw buf = rw\<lparr>Body := Body rw @ buf\<rparr>"
  by (simp add: Write_def)

lemma hexEscapeNonASCII_ASCII:
  "is_ASCII s \<Longrightarrow> hexEscapeNonASCII s = s"
  unfolding is_ASCII_def hexEscapeNonASCII_def
  by (induction s) simp_all

lemma redirect_target_not_relative:
  "\<not> url_Parse_relative url \<Longrightarrow> redirect_target r url = url"
  by (simp add: redirect_target_def)

lemma redirect_target_clean_rooted:
  assumes "url \<noteq> []" and "hd url = CHR ''/''" and "CHR ''?'' \<notin> set url"
    and "path_Clean url = url"
  shows "redirect_target r url = url"
proof -
  have tw: "takeWhile (\<lambda>c. c \<noteq> CHR ''?'') url = url"
    using assms(3) by (auto simp: takeWhile_eq_all_conv)
  have dw: "dropWhile (\<lambda>c. c \<noteq> CHR ''?'') url = []"
    using assms(3) by (auto simp: dropWhile_eq_Nil_conv)
  show ?thesis
    using assms(1,2,4) by (simp add: redirect_target_def Let_def tw dw)
qed

lemma http_Redirect_Location:
  "HeaderMap (http_Redirect w r url code) ''Location''
     = Some [hexEscapeNonASCII (redirect_target r url)]"
  by (simp add: http_Redirect_def Let_def Fprintln_def Write_def WriteHeader_def Header_Set_def)

lemma http_Redirect_Code:
  "\<not> wroteHeader w \<Longrightarrow> Code (http_Redirect w r url code) = code"
  by (simp add: http_Redirect_def Let_def Fprintln_def Write_def WriteHeader_def)

text \<open>
  A \<open>GET\<close> answered by \<open>http.Redirect\<close> on a fresh recorder: the status, the two
  headers and the short body naming the target.
\<close>

lemma http_Redirect_fresh_GET:
  "http_Redirect NewRecorder (request_for ''GET'' p) url StatusFound =
     \<lparr>Code = 302,
      HeaderMap = [''Location'' \<mapsto> [hexEscapeNonASCII (redirect_target (request_for ''GET'' p) url)],
                   ''Content-Type'' \<mapsto> [''text/html; charset=utf-8'']],
      Body = ''<a href='' @ [CHR 0x22] @ htmlEscape (redirect_target (request_for ''GET'' p) url)
               @ [CHR 0x22] @ ''>Found</a>.'' @ [CHR 0x0A, CHR 0x0A],
      wroteHeader = True\<rparr>"
  by (simp add: http_Redirect_def Let_def Fprintln_def Write_def WriteHeader_def Header_Set_def
        NewRecorder_def request_for_def StatusFound_def statusText_def)

lemma hello_fresh:
  "hello world NewRecorder r =
     \<lparr>Code = 200, HeaderMap = [''Content-Type'' \<mapsto> [''text/plain; charset=utf-8'']],
      Body = ''Hello, world!'' @ [CHR 0x0A], wroteHeader = True\<rparr>"
  by (simp add: hello_def Fprintln_def Write_def WriteHeader_def Header_Set_def Header_Get_def
        NewRecorder_def Let_def)

text \<open>
  The destinations of \<open>main.go\<close> are absolute URLs: they do not parse as relative
  references and are passed on as they are. The empty destination is relative and
  becomes the directory of the request's path.
\<close>

lemma absolute_destination_kept:
  "\<not> url_Parse_relative ''https://github.com/gophercises/urlshort''
   \<and> redirect_target r ''https://github.com/gophercises/urlshort''
       = ''https://github.com/gophercises/urlshort''"
proof -
  have "\<not> url_Parse_relative ''https://github.com/gophercises/urlshort''"
    by code_simp
  then show ?thesis
    by (simp add: redirect_target_not_relative)
qed

lemma empty_destination_target:
  "redirect_target (request_for ''GET'' ''/a/b'') [] = ''/a/''"
  by code_simp

lemma target_x_from_a_b:
  "redirect_target (request_for ''GET'' ''/a/b'') ''x'' = ''/a/x''"
  by code_simp

lemma target_slash_x:
  "redirect_target (request_for ''GET'' ''/a'') ''/x'' = ''/x''"
  by code_simp

lemma target_slash_y:
  "redirect_target (request_for ''GET'' ''/a'') ''/y'' = ''/y''"
  by code_simp

section \<open>Properties of the lookup handler\<close>

lemma MapHandler_hit:
  "pathsToUrls (url_Path (req_URL r)) = Some url \<Longrightarrow>
     MapHandler pathsToUrls fallback world w r = http_Redirect w r url StatusFound"
  by (simp add: MapHandler_def)

lemma MapHandler_miss:
  "pathsToUrls (url_Path (req_URL r)) = None \<Longrightarrow>
     MapHandler pathsToUrls fallback world w r = fallback world w r"
  by (simp add: MapHandler_def)

text \<open>
  Claim C1, as the code has it. When the table maps the request's path \<open>P\<close> to \<open>D\<close>,
  the handler's whole effect on the response is \<open>http.Redirect\<close> to \<open>D\<close> with status
  Found, the same for any other fallback and any other state of the world. On a sink
  whose header is not yet written the status is 302. The \<open>Location\<close> header is the
  target \<open>http.Redirect\<close> derives from \<open>D\<close> and the request's path, with bytes
  outside ASCII escaped; it is \<open>D\<close> itself when \<open>D\<close> is ASCII and either does not
  parse as a relative reference (an absolute URL, for one) or is a rooted path without
  query that \<open>path.Clean\<close> leaves as it is.
\<close>

theorem MapHandler_redirects_on_hit:
  assumes "T P = Some D" and "url_Path (req_URL r) = P"
  shows "MapHandler T F world w r = http_Redirect w r D StatusFound
         \<and> MapHandler T F world w r = MapHandler T F' world' w r
         \<and> (\<not> wroteHeader w \<longrightarrow> Code (MapHandler T F world w r) = 302)
         \<and> HeaderMap (MapHandler T F world w r) ''Location''
             = Some [hexEscapeNonASCII (redirect_target r D)]
         \<and> (is_ASCII D
              \<and> (\<not> url_Parse_relative D
                   \<or> (D \<noteq> [] \<and> hd D = CHR ''/'' \<and> CHR ''?'' \<notin> set D \<and> path_Clean D = D))
             \<longrightarrow> HeaderMap (MapHandler T F world w r) ''Location'' = Some [D])"
proof -
  have hit: "MapHandler T F world w r = http_Redirect w r D StatusFound"
    using assms by (simp add: MapHandler_hit)
  have hit': "MapHandler T F' world' w r = http_Redirect w r D StatusFound"
    using assms by (simp add: MapHandler_hit)
  have code: "\<not> wroteHeader w \<longrightarrow> Code (http_Redirect w r D StatusFound) = 302"
    by (simp add: http_Redirect_Code StatusFound_def)
  have same: "redirect_target r D = D"
    if "\<not> url_Parse_relative D
        \<or> (D \<noteq> [] \<and> hd D = CHR ''/'' \<and> CHR ''?'' \<notin> set D \<and> path_Clean D = D)"
    using that redirect_target_not_relative redirect_target_clean_rooted by blast
  show ?thesis
    using code same
    by (simp add: hit hit' http_Redirect_Location hexEscapeNonASCII_ASCII)
qed

theorem MapHandler_redirects_on_hit_witness:
  "[''/redirect'' \<mapsto> ''/netapp''] ''/redirect'' = Some ''/netapp''
   \<and> url_Path (req_URL (request_for ''GET'' ''/redirect'')) = ''/redirect''
   \<and> \<not> wroteHeader NewRecorder
   \<and> is_ASCII ''/netapp''
   \<and> ''/netapp'' \<noteq> [] \<and> hd ''/netapp'' = CHR ''/'' \<and> CHR ''?'' \<notin> set ''/netapp''
   \<and> path_Clean ''/netapp'' = ''/netapp''
   \<and> Code (MapHandler [''/redirect'' \<mapsto> ''/netapp''] hello () NewRecorder
              (request_for ''GET'' ''/redirect'')) = 302
   \<and> HeaderMap (MapHandler [''/redirect'' \<mapsto> ''/netapp''] hello () NewRecorder
                   (request_for ''GET'' ''/redirect'')) ''Location'' = Some [''/netapp'']"
proof -
  have t: "[''/redirect'' \<mapsto> ''/netapp''] ''/redirect'' = Some ''/netapp''"
    by simp
  have p: "url_Path (req_URL (request_for ''GET'' ''/redirect'')) = ''/redirect''"
    by (simp add: request_for_def)
  have f: "\<not> wroteHeader NewRecorder"
    by (simp add: NewRecorder_def)
  have a: "is_ASCII ''/netapp''"
    by code_simp
  have c: "path_Clean ''/netapp'' = ''/netapp''"
    by code_simp
  have s: "''/netapp'' \<noteq> [] \<and> hd ''/netapp'' = CHR ''/'' \<and> CHR ''?'' \<notin> set ''/netapp''"
    by simp
  from MapHandler_redirects_on_hit [of "[''/redirect'' \<mapsto> ''/netapp'']" "''/redirect''"
         "''/netapp''" "request_for ''GET'' ''/redirect''" hello "()" NewRecorder hello "()"]
       t p f a c s
  have "Code (MapHandler [''/redirect'' \<mapsto> ''/netapp''] hello () NewRecorder
                (request_for ''GET'' ''/redirect'')) = 302
        \<and> HeaderMap (MapHandler [''/redirect'' \<mapsto> ''/netapp''] hello () NewRecorder
                       (request_for ''GET'' ''/redirect'')) ''Location'' = Some [''/netapp'']"
    by blast
  with t p f a c s show ?thesis
    by blast
qed

text \<open>
  The claim as stated fails on a relative destination: with the table
  \<open>/a/b \<mapsto> x\<close>, \<open>GET /a/b\<close> is answered with \<open>Location: /a/x\<close>, not \<open>x\<close>.
\<close>

theorem MapHandler_location_is_not_destination:
  "[''/a/b'' \<mapsto> ''x''] ''/a/b'' = Some ''x''
   \<and> url_Path (req_URL (request_for ''GET'' ''/a/b'')) = ''/a/b''
   \<and> HeaderMap (MapHandler [''/a/b'' \<mapsto> ''x''] hello () NewRecorder (request_for ''GET'' ''/a/b''))
        ''Location'' = Some [''/a/x'']
   \<and> HeaderMap (MapHandler [''/a/b'' \<mapsto> ''x''] hello () NewRecorder (request_for ''GET'' ''/a/b''))
        ''Location'' \<noteq> Some [''x'']"
proof -
  have e: "hexEscapeNonASCII ''/a/x'' = ''/a/x''"
    by code_simp
  have p: "url_Path (req_URL (request_for ''GET'' ''/a/b'')) = ''/a/b''"
    by (simp add: request_for_def)
  have "MapHandler [''/a/b'' \<mapsto> ''x''] hello () NewRecorder (request_for ''GET'' ''/a/b'')
          = http_Redirect NewRecorder (request_for ''GET'' ''/a/b'') ''x'' StatusFound"
    by (rule MapHandler_hit) (simp add: request_for_def)
  then have "HeaderMap (MapHandler [''/a/b'' \<mapsto> ''x''] hello () NewRecorder (request_for ''GET'' ''/a/b''))
               ''Location'' = Some [''/a/x'']"
    by (simp add: http_Redirect_Location target_x_from_a_b e)
  with p show ?thesis
    by simp
qed

text \<open>
  Claim C2. When the request's path is not a key of the table, the handler hands the
  same response sink and the same request to the fallback and its result is the
  fallback's result.
\<close>

theorem MapHandler_falls_back_on_miss:
  assumes "T P = None" and "url_Path (req_URL r) = P"
  shows "MapHandler T F world w r = F world w r"
  using assms by (simp add: MapHandler_miss)

theorem MapHandler_falls_back_on_miss_witness:
  "[''/redirect'' \<mapsto> ''/netapp''] ''/unused-path'' = None
   \<and> url_Path (req_URL (request_for ''GET'' ''/unused-path'')) = ''/unused-path''
   \<and> MapHandler [''/redirect'' \<mapsto> ''/netapp''] hello () NewRecorder (request_for ''GET'' ''/unused-path'')
       = \<lparr>Code = 200, HeaderMap = [''Content-Type'' \<mapsto> [''text/plain; charset=utf-8'']],
          Body = ''Hello, world!'' @ [CHR 0x0A], wroteHeader = True\<rparr>"
  using MapHandler_falls_back_on_miss [of "[''/redirect'' \<mapsto> ''/netapp'']" "''/unused-path''"
      "request_for ''GET'' ''/unused-path''" hello "()" NewRecorder]
  by (simp add: request_for_def hello_fresh)

text \<open>
  Claim C9. The handler is defined on every table, fallback and request, the empty path
  included, and has no error outcome: it redirects when the path component of the
  request is a key of the table and calls the fallback otherwise. The key consulted is
  the path component as it stands: with a single entry for \<open>p\<close> the redirect happens
  exactly for the requests whose path equals \<open>p\<close>, whatever their query.
\<close>

theorem MapHandler_total_exact_match:
  "MapHandler T F world w r =
     (if url_Path (req_URL r) \<in> dom T
      then http_Redirect w r (the (T (url_Path (req_URL r)))) StatusFound
      else F world w r)
   \<and> MapHandler [p \<mapsto> D] F world w r =
     (if url_Path (req_URL r) = p then http_Redirect w r D StatusFound else F world w r)"
  by (auto simp: MapHandler_def split: option.splits)

text \<open>
  The witness serves, over the table \<open>/a \<mapsto> /x\<close>, the empty path, \<open>/a/\<close>, \<open>/a/b\<close>, a
  path component that itself contains a question mark (as \<open>GET /a%3Fq=1\<close> gives it),
  and \<open>GET /a?q=1\<close>, whose path component is \<open>/a\<close>.
\<close>

theorem MapHandler_total_exact_match_witness:
  "MapHandler [''/a'' \<mapsto> ''/x''] hello () NewRecorder (request_for ''GET'' [])
     = hello () NewRecorder (request_for ''GET'' [])
   \<and> MapHandler [''/a'' \<mapsto> ''/x''] hello () NewRecorder (request_for ''GET'' ''/a/'')
     = hello () NewRecorder (request_for ''GET'' ''/a/'')
   \<and> MapHandler [''/a'' \<mapsto> ''/x''] hello () NewRecorder (request_for ''GET'' ''/a/b'')
     = hello () NewRecorder (request_for ''GET'' ''/a/b'')
   \<and> MapHandler [''/a'' \<mapsto> ''/x''] hello () NewRecorder (request_for ''GET'' ''/a?q=1'')
     = hello () NewRecorder (request_for ''GET'' ''/a?q=1'')
   \<and> MapHandler [''/a'' \<mapsto> ''/x''] hello () NewRecorder
        \<lparr>Method = ''GET'', req_URL = \<lparr>url_Path = ''/a'', url_RawQuery = ''q=1''\<rparr>\<rparr>
     = http_Redirect NewRecorder
        \<lparr>Method = ''GET'', req_URL = \<lparr>url_Path = ''/a'', url_RawQuery = ''q=1''\<rparr>\<rparr> ''/x'' StatusFound
   \<and> HeaderMap (MapHandler [''/a'' \<mapsto> ''/x''] hello () NewRecorder
        \<lparr>Method = ''GET'', req_URL = \<lparr>url_Path = ''/a'', url_RawQuery = ''q=1''\<rparr>\<rparr>) ''Location''
     = Some [''/x'']"
proof -
  have t: "redirect_target \<lparr>Method = ''GET'', req_URL = \<lparr>url_Path = ''/a'', url_RawQuery = ''q=1''\<rparr>\<rparr> ''/x''
             = ''/x''"
    by code_simp
  have e: "hexEscapeNonASCII ''/x'' = ''/x''"
    by code_simp
  show ?thesis
    using MapHandler_total_exact_match [of "[''/a'' \<mapsto> ''/x'']" hello "()" NewRecorder
            "request_for ''GET'' []" "''/a''" "''/x''"]
          MapHandler_total_exact_match [of "[''/a'' \<mapsto> ''/x'']" hello "()" NewRecorder
            "request_for ''GET'' ''/a/''" "''/a''" "''/x''"]
          MapHandler_total_exact_match [of "[''/a'' \<mapsto> ''/x'']" hello "()" NewRecorder
            "request_for ''GET'' ''/a/b''" "''/a''" "''/x''"]
          MapHandler_total_exact_match [of "[''/a'' \<mapsto> ''/x'']" hello "()" NewRecorder
            "request_for ''GET'' ''/a?q=1''" "''/a''" "''/x''"]
          MapHandler_total_exact_match [of "[''/a'' \<mapsto> ''/x'']" hello "()" NewRecorder
            "\<lparr>Method = ''GET'', req_URL = \<lparr>url_Path = ''/a'', url_RawQuery = ''q=1''\<rparr>\<rparr>"
            "''/a''" "''/x''"]
    by (simp add: request_for_def http_Redirect_Location t e)
qed

section \<open>Properties of the factories\<close>

lemma YamlHandler_unfold:
  "YamlHandler yu yml F =
     (case snd (ParseYaml yu yml []) of
        Some e \<Rightarrow> (None, Some e)
      | None \<Rightarrow> (Some (MapHandler (RedirectsToMap (fst (ParseYaml yu yml []))) F), None))"
  by (simp add: YamlHandler_def Let_def split: prod.splits option.splits)

lemma JsonHandler_unfold:
  "JsonHandler ju jsn F =
     (case snd (ParseJson ju jsn []) of
        Some e \<Rightarrow> (None, Some e)
      | None \<Rightarrow> (Some (MapHandler (RedirectsToMap (fst (ParseJson ju jsn []))) F), None))"
  by (simp add: JsonHandler_def Let_def split: prod.splits option.splits)

lemma DbHandler_unfold:
  "DbHandler ctx r F =
     (case snd (Find ctx r [] bson_M_empty) of
        Some e \<Rightarrow> (None, Some e)
      | None \<Rightarrow> (Some (MapHandler (RedirectsToMap (fst (Find ctx r [] bson_M_empty))) F), None))"
  by (simp add: DbHandler_def Let_def split: prod.splits option.splits)

text \<open>
  Claim C6. When the decoder reports an error, \<open>YamlHandler\<close> and \<open>JsonHandler\<close>
  return that same error and no handler (\<open>nil\<close>), whatever the decoder had already
  written to the slice: no table is built from it.
\<close>

theorem decode_failure_gives_no_handler:
  "(snd (ParseYaml yu yml []) = Some e \<longrightarrow> YamlHandler yu yml F = (None, Some e))
   \<and> (snd (ParseJson ju jsn []) = Some e' \<longrightarrow> JsonHandler ju jsn F = (None, Some e'))"
  by (simp add: YamlHandler_unfold JsonHandler_unfold)

theorem decode_failure_gives_no_handler_witness:
  "snd (ParseYaml (\<lambda>b v. ([\<lparr>Path = ''/urlshort'', URL = []\<rparr>], Some (Error ''yaml: line 3: found character that cannot start any token'')))
          ''- path: /urlshort'' []) = Some (Error ''yaml: line 3: found character that cannot start any token'')
   \<and> YamlHandler (\<lambda>b v. ([\<lparr>Path = ''/urlshort'', URL = []\<rparr>], Some (Error ''yaml: line 3: found character that cannot start any token'')))
          ''- path: /urlshort'' (hello :: unit Handler)
       = (None, Some (Error ''yaml: line 3: found character that cannot start any token''))
   \<and> snd (ParseJson (\<lambda>b v. ([\<lparr>Path = ''/urlshort'', URL = []\<rparr>], Some (Error ''json: cannot unmarshal object into Go struct field Redirect.url of type string'')))
          ''[{\"path\": \"/urlshort\", \"url\": {}}]'' []) = Some (Error ''json: cannot unmarshal object into Go struct field Redirect.url of type string'')
   \<and> JsonHandler (\<lambda>b v. ([\<lparr>Path = ''/urlshort'', URL = []\<rparr>], Some (Error ''json: cannot unmarshal object into Go struct field Redirect.url of type string'')))
          ''[{\"path\": \"/urlshort\", \"url\": {}}]'' (hello :: unit Handler)
       = (None, Some (Error ''json: cannot unmarshal object into Go struct field Redirect.url of type string''))"
  using decode_failure_gives_no_handler
          [of "\<lambda>b v. ([\<lparr>Path = ''/urlshort'', URL = []\<rparr>], Some (Error ''yaml: line 3: found character that cannot start any token''))"
              "''- path: /urlshort''"
              "Error ''yaml: line 3: found character that cannot start any token''"
              "hello :: unit Handler"
              "\<lambda>b v. ([\<lparr>Path = ''/urlshort'', URL = []\<rparr>], Some (Error ''json: cannot unmarshal object into Go struct field Redirect.url of type string''))"
              "''[{\"path\": \"/urlshort\", \"url\": {}}]''"
              "Error ''json: cannot unmarshal object into Go struct field Redirect.url of type string''"]
  by (simp add: ParseYaml_def ParseJson_def)

section \<open>Properties of the conversion to interface values\<close>

lemma RedirectsToArrayInterface_loop_inv:
  "length s = i + length vs \<Longrightarrow>
     RedirectsToArrayInterface_loop i vs s = Some (take i s @ map Redirect_iface vs)"
proof (induction vs arbitrary: i s)
  case Nil
  then show ?case by simp
next
  case (Cons v vs)
  from Cons.prems have lt: "i < length s" by simp
  from Cons.prems have len: "length (s[i := Redirect_iface v]) = Suc i + length vs" by simp
  have "take (Suc i) (s[i := Redirect_iface v]) = take i s @ [Redirect_iface v]"
    using lt by (simp add: take_Suc_conv_app_nth)
  with Cons.IH [OF len] lt show ?case by simp
qed

lemma RedirectsToArrayInterface_eq:
  "RedirectsToArrayInterface rs = Some (map Redirect_iface rs)"
  by (simp add: RedirectsToArrayInterface_def RedirectsToArrayInterface_loop_inv)

text \<open>
  Claim C10. \<open>RedirectsToArrayInterface\<close> returns, without panicking, a slice of the
  length of its input whose element at every index holds the input record at that
  index.
\<close>

theorem RedirectsToArrayInterface_preserves:
  "\<exists>s. RedirectsToArrayInterface rs = Some s \<and> length s = length rs
       \<and> (\<forall>i<length rs. s ! i = Redirect_iface (rs ! i))"
  by (simp add: RedirectsToArrayInterface_eq)

theorem RedirectsToArrayInterface_preserves_witness:
  "\<exists>s. RedirectsToArrayInterface
          [\<lparr>Path = ''/urlshort'', URL = ''https://github.com/gophercises/urlshort''\<rparr>,
           \<lparr>Path = ''/urlshort-final'', URL = ''https://github.com/gophercises/urlshort/tree/solution''\<rparr>]
        = Some s
      \<and> length s = 2
      \<and> s ! 0 = Redirect_iface \<lparr>Path = ''/urlshort'', URL = ''https://github.com/gophercises/urlshort''\<rparr>
      \<and> s ! 1 = Redirect_iface \<lparr>Path = ''/urlshort-final'', URL = ''https://github.com/gophercises/urlshort/tree/solution''\<rparr>"
proof -
  let ?rs = "[\<lparr>Path = ''/urlshort'', URL = ''https://github.com/gophercises/urlshort''\<rparr>,
              \<lparr>Path = ''/urlshort-final'', URL = ''https://github.com/gophercises/urlshort/tree/solution''\<rparr>]"
  from RedirectsToArrayInterface_preserves [of ?rs]
  obtain s where s: "RedirectsToArrayInterface ?rs = Some s" "length s = length ?rs"
      "\<forall>i<length ?rs. s ! i = Redirect_iface (?rs ! i)"
    by blast
  from s(3) have "s ! 0 = Redirect_iface (?rs ! 0)" and "s ! 1 = Redirect_iface (?rs ! 1)"
    by simp_all
  with s(1,2) show ?thesis
    by simp
qed

section \<open>Properties of the database handler\<close>

lemma DbHandler_error:
  "snd (Find ctx r [] bson_M_empty) = Some e \<Longrightarrow> DbHandler ctx r F = (None, Some e)"
  by (simp add: DbHandler_unfold)

lemma DbHandler_table_fixed:
  "DbHandler ctx r F = (Some h, err) \<Longrightarrow>
     err = None \<and> h = MapHandler (RedirectsToMap (fst (Find ctx r [] bson_M_empty))) F"
  by (auto simp: DbHandler_unfold split: option.splits)

lemma Find_all:
  "find_err (db r redirectoryCollectionName) = None \<Longrightarrow>
   decode_err (db r redirectoryCollectionName) = None \<Longrightarrow>
     Find ctx r v bson_M_empty = (documents (db r redirectoryCollectionName), None)"
  by (simp add: Find_def Collection_Find_def Cursor_All_def bson_M_empty_def)

lemma MapHandler_a_x:
  "MapHandler [''/a'' \<mapsto> ''/x''] F world NewRecorder (request_for ''GET'' ''/a'')
     = \<lparr>Code = 302,
        HeaderMap = [''Location'' \<mapsto> [''/x''], ''Content-Type'' \<mapsto> [''text/html; charset=utf-8'']],
        Body = ''<a href='' @ [CHR 0x22] @ ''/x'' @ [CHR 0x22] @ ''>Found</a>.'' @ [CHR 0x0A, CHR 0x0A],
        wroteHeader = True\<rparr>"
proof -
  have e: "hexEscapeNonASCII ''/x'' = ''/x''" by code_simp
  have h: "htmlEscape ''/x'' = ''/x''" by code_simp
  have "MapHandler [''/a'' \<mapsto> ''/x''] F world NewRecorder (request_for ''GET'' ''/a'')
          = http_Redirect NewRecorder (request_for ''GET'' ''/a'') ''/x'' StatusFound"
    by (rule MapHandler_hit) (simp add: request_for_def)
  then show ?thesis
    by (simp add: http_Redirect_fresh_GET target_slash_x e h)
qed

lemma MapHandler_a_y:
  "MapHandler [''/a'' \<mapsto> ''/y''] F world NewRecorder (request_for ''GET'' ''/a'')
     = \<lparr>Code = 302,
        HeaderMap = [''Location'' \<mapsto> [''/y''], ''Content-Type'' \<mapsto> [''text/html; charset=utf-8'']],
        Body = ''<a href='' @ [CHR 0x22] @ ''/y'' @ [CHR 0x22] @ ''>Found</a>.'' @ [CHR 0x0A, CHR 0x0A],
        wroteHeader = True\<rparr>"
proof -
  have e: "hexEscapeNonASCII ''/y'' = ''/y''" by code_simp
  have h: "htmlEscape ''/y'' = ''/y''" by code_simp
  have "MapHandler [''/a'' \<mapsto> ''/y''] F world NewRecorder (request_for ''GET'' ''/a'')
          = http_Redirect NewRecorder (request_for ''GET'' ''/a'') ''/y'' StatusFound"
    by (rule MapHandler_hit) (simp add: request_for_def)
  then show ?thesis
    by (simp add: http_Redirect_fresh_GET target_slash_y e h)
qed

text \<open>
  Claim C3. \<open>DbHandler\<close> queries the collection once, when it is called, and returns
  the lookup handler over the table built then. Built while the collection holds
  \<open>/a \<mapsto> /x\<close> and serving \<open>GET /a\<close> when the collection holds \<open>/a \<mapsto> /y\<close>, the
  handler redirects to \<open>/x\<close>; a handler built from the collection as it is at the time
  of the request redirects to \<open>/y\<close>.
\<close>

theorem DbHandler_serves_construction_time_table:
  "DbHandler ()
      \<lparr>db = (\<lambda>_. \<lparr>documents = [\<lparr>Path = ''/a'', URL = ''/x''\<rparr>], find_err = None, decode_err = None\<rparr>)\<rparr>
      hello
     = (Some (MapHandler [''/a'' \<mapsto> ''/x''] hello), None)
   \<and> MapHandler [''/a'' \<mapsto> ''/x''] hello
        \<lparr>db = (\<lambda>_. \<lparr>documents = [\<lparr>Path = ''/a'', URL = ''/y''\<rparr>], find_err = None, decode_err = None\<rparr>)\<rparr>
        NewRecorder (request_for ''GET'' ''/a'')
     = \<lparr>Code = 302,
        HeaderMap = [''Location'' \<mapsto> [''/x''], ''Content-Type'' \<mapsto> [''text/html; charset=utf-8'']],
        Body = ''<a href='' @ [CHR 0x22] @ ''/x'' @ [CHR 0x22] @ ''>Found</a>.'' @ [CHR 0x0A, CHR 0x0A],
        wroteHeader = True\<rparr>
   \<and> DbHandler ()
        \<lparr>db = (\<lambda>_. \<lparr>documents = [\<lparr>Path = ''/a'', URL = ''/y''\<rparr>], find_err = None, decode_err = None\<rparr>)\<rparr>
        hello
     = (Some (MapHandler [''/a'' \<mapsto> ''/y''] hello), None)
   \<and> MapHandler [''/a'' \<mapsto> ''/y''] hello
        \<lparr>db = (\<lambda>_. \<lparr>documents = [\<lparr>Path = ''/a'', URL = ''/y''\<rparr>], find_err = None, decode_err = None\<rparr>)\<rparr>
        NewRecorder (request_for ''GET'' ''/a'')
     = \<lparr>Code = 302,
        HeaderMap = [''Location'' \<mapsto> [''/y''], ''Content-Type'' \<mapsto> [''text/html; charset=utf-8'']],
        Body = ''<a href='' @ [CHR 0x22] @ ''/y'' @ [CHR 0x22] @ ''>Found</a>.'' @ [CHR 0x0A, CHR 0x0A],
        wroteHeader = True\<rparr>"
proof (intro conjI)
  show "DbHandler ()
      \<lparr>db = (\<lambda>_. \<lparr>documents = [\<lparr>Path = ''/a'', URL = ''/x''\<rparr>], find_err = None, decode_err = None\<rparr>)\<rparr>
      hello
     = (Some (MapHandler [''/a'' \<mapsto> ''/x''] hello), None)"
    by (simp add: DbHandler_unfold Find_all RedirectsToMap_def)
  show "DbHandler ()
        \<lparr>db = (\<lambda>_. \<lparr>documents = [\<lparr>Path = ''/a'', URL = ''/y''\<rparr>], find_err = None, decode_err = None\<rparr>)\<rparr>
        hello
     = (Some (MapHandler [''/a'' \<mapsto> ''/y''] hello), None)"
    by (simp add: DbHandler_unfold Find_all RedirectsToMap_def)
qed (rule MapHandler_a_x, rule MapHandler_a_y)

text \<open>
  Claim C7. The handler returned by \<open>DbHandler\<close> does not query the collection when it
  serves a request. Built while the collection holds \<open>/a \<mapsto> /x\<close> and serving
  \<open>GET /a\<close> at a moment when a query of the collection fails, it answers 302 with
  \<open>Location: /x\<close> from the table built earlier; the failure reaches nobody.
\<close>

theorem DbHandler_serves_stale_table_when_store_fails:
  "DbHandler ()
      \<lparr>db = (\<lambda>_. \<lparr>documents = [\<lparr>Path = ''/a'', URL = ''/x''\<rparr>], find_err = None, decode_err = None\<rparr>)\<rparr>
      hello
     = (Some (MapHandler [''/a'' \<mapsto> ''/x''] hello), None)
   \<and> Find ()
        \<lparr>db = (\<lambda>_. \<lparr>documents = [], find_err = Some (Error ''server selection error''), decode_err = None\<rparr>)\<rparr>
        [] bson_M_empty
     = ([], Some (Error ''server selection error''))
   \<and> MapHandler [''/a'' \<mapsto> ''/x''] hello
        \<lparr>db = (\<lambda>_. \<lparr>documents = [], find_err = Some (Error ''server selection error''), decode_err = None\<rparr>)\<rparr>
        NewRecorder (request_for ''GET'' ''/a'')
     = \<lparr>Code = 302,
        HeaderMap = [''Location'' \<mapsto> [''/x''], ''Content-Type'' \<mapsto> [''text/html; charset=utf-8'']],
        Body = ''<a href='' @ [CHR 0x22] @ ''/x'' @ [CHR 0x22] @ ''>Found</a>.'' @ [CHR 0x0A, CHR 0x0A],
        wroteHeader = True\<rparr>"
proof (intro conjI)
  show "DbHandler ()
      \<lparr>db = (\<lambda>_. \<lparr>documents = [\<lparr>Path = ''/a'', URL = ''/x''\<rparr>], find_err = None, decode_err = None\<rparr>)\<rparr>
      hello
     = (Some (MapHandler [''/a'' \<mapsto> ''/x''] hello), None)"
    by (simp add: DbHandler_unfold Find_all RedirectsToMap_def)
  show "Find ()
        \<lparr>db = (\<lambda>_. \<lparr>documents = [], find_err = Some (Error ''server selection error''), decode_err = None\<rparr>)\<rparr>
        [] bson_M_empty
     = ([], Some (Error ''server selection error''))"
    by (simp add: Find_def Collection_Find_def)
qed (rule MapHandler_a_x)

end
